theory Spec2Isabelle
  imports Main
begin

section \<open>Strings and number formatting used by the listener\<close>

text \<open>
  Go strings are byte sequences; they are modelled as \<open>string\<close> (a list of 8-bit
  characters). \<open>HasPrefix\<close> and \<open>Contains\<close> are the functions of Go's package
  \<open>strings\<close>.
\<close>

fun HasPrefix :: "string \<Rightarrow> string \<Rightarrow> bool" where
  "HasPrefix s [] = True"
| "HasPrefix [] (c # cs) = False"
| "HasPrefix (x # xs) (c # cs) = (x = c \<and> HasPrefix xs cs)"

fun Contains :: "string \<Rightarrow> string \<Rightarrow> bool" where
  "Contains [] sub = (sub = [])"
| "Contains (x # xs) sub = (HasPrefix (x # xs) sub \<or> Contains xs sub)"

definition digit :: "nat \<Rightarrow> char" where
  "digit d = ''0123456789'' ! d"

fun decimal :: "nat \<Rightarrow> string" where
  "decimal n = (if n < 10 then [digit n] else decimal (n div 10) @ [digit (n mod 10)])"

declare decimal.simps [simp del]

text \<open>The verb \<open>%d\<close> of \<open>fmt.Sprintf\<close> on a Go \<open>int\<close>.\<close>

definition fmt_d :: "int \<Rightarrow> string" where
  "fmt_d i = (if i < 0 then CHR ''-'' # decimal (nat (- i)) else decimal (nat i))"

text \<open>
  \<^verbatim>\<open>
  func formatBindAddr(s string, p int) string {
      if strings.Contains(s, ":") && !strings.Contains(s, "[") {
          s = "[" + s + "]"
      }
      return fmt.Sprintf("%s:%d", s, p)
  }
  \<close>
\<close>

definition formatBindAddr :: "string \<Rightarrow> int \<Rightarrow> string" where
  "formatBindAddr s p =
     (let s' = (if Contains s '':'' \<and> \<not> Contains s ''['' then ''['' @ s @ '']'' else s)
      in s' @ '':'' @ fmt_d p)"

section \<open>Goroutines that acknowledge on a channel\<close>

text \<open>
  Every \<open>Stop\<close> of the repository makes an unbuffered channel, starts one goroutine and
  returns the channel. The body of that goroutine is modelled as the list of its steps in
  program order: a piece of shutdown work, or a send on the channel. A send on an
  unbuffered channel completes together with the caller's receive, so the steps before the
  first send have completed when the caller holds the value, and the steps after it have
  not started.
\<close>

datatype work =
    ServerShutdown
  | OtelShutdown "string list"
  | NilFuncCall

datatype gstep = Work work | Send bool

text \<open>
  \<open>split_at_send\<close> runs a goroutine up to its first send: the steps completed before it,
  the value the receiver gets (\<open>None\<close>: the goroutine ends without sending and the
  receiver waits for ever), and the steps still to run.
\<close>

fun split_at_send :: "gstep list \<Rightarrow> gstep list \<times> bool option \<times> gstep list" where
  "split_at_send [] = ([], None, [])"
| "split_at_send (Send v # rest) = ([], Some v, rest)"
| "split_at_send (Work w # rest) =
     (case split_at_send rest of (pre, v, post) \<Rightarrow> (Work w # pre, v, post))"

fun sent :: "gstep list \<Rightarrow> bool list" where
  "sent [] = []"
| "sent (Send v # rest) = v # sent rest"
| "sent (Work w # rest) = sent rest"

fun works :: "gstep list \<Rightarrow> work list" where
  "works [] = []"
| "works (Send v # rest) = works rest"
| "works (Work w # rest) = w # works rest"

definition done_before_ack :: "gstep list \<Rightarrow> work list" where
  "done_before_ack body = works (fst (split_at_send body))"

definition pending_at_ack :: "gstep list \<Rightarrow> work list" where
  "pending_at_ack body = works (snd (snd (split_at_send body)))"

section \<open>The data model of the listener\<close>

text \<open>
  Error values: \<open>http.ErrServerClosed\<close>, an error that is a \<open>net.Error\<close> whose
  \<open>Temporary()\<close> is true (an accept failing with EMFILE or ENFILE, say), and any other
  error.
\<close>

datatype error = ErrServerClosed | TemporaryError string | OtherError string

fun Temporary :: "error \<Rightarrow> bool" where
  "Temporary (TemporaryError m) = True"
| "Temporary err = False"

text \<open>What a call does: it returns a value, ends the process, panics, or does not return.\<close>

datatype 'a exec = Ret 'a | Exit int | Panic | Block

record Config =
  Port :: int
  BindAddr :: string
  GinNoDefault :: bool

text \<open>
  A \<open>gin.Engine\<close> is the middleware in use and the routes installed. A handler callback
  \<open>func(*gin.Engine)\<close> changes the engine it is given.
\<close>

record Engine =
  middleware :: "string list"
  routes :: "string list"

type_synonym handler = "Engine \<Rightarrow> Engine"

record TCPListener =
  lis_host :: string
  lis_port :: int

record TCPConn =
  remote :: string
  keepAlive :: bool
  keepAlivePeriod :: int

text \<open>
  \<open>myHttpServer\<close> wraps \<open>http.Server\<close>: its \<open>Handler\<close> is a pointer to an engine
  (an index into the store \<open>engines\<close> below), and the server keeps the listeners it
  serves on, so that \<open>Shutdown\<close> can close them.
\<close>

record myHttpServer =
  Handler :: nat
  listeners :: "TCPListener list"
  inShutdown :: bool

text \<open>
  The observable events of a listener, in the order the code produces them: the use of
  the mutex, reads and writes of the bound port \<open>gs.Config.Port\<close>, sockets opened and
  closed, connections handed to the server, the end of \<open>Shutdown\<close>, the value received
  from the channel of \<open>Stop\<close>, and the end of the process.
\<close>

datatype event =
    EvLock
  | EvUnlock
  | EvPortRead int
  | EvPortWrite int
  | EvListen string
  | EvBind TCPListener
  | EvClose TCPListener
  | EvConn TCPConn
  | EvShutdown
  | EvAck bool
  | EvExit int

text \<open>
  The struct \<open>ginService\<close>. \<open>cfg\<close> is the embedded \<open>Config\<close>; \<open>ginMode\<close> and
  \<open>ginNoLogger\<close> are the package variables the flags write; \<open>engines\<close> is the store of
  the engines made by \<open>gin.New()\<close>, a pointer being an index; \<open>trace\<close> is the list of
  events so far. The mutex \<open>mu\<close> appears through the events \<open>EvLock\<close> and \<open>EvUnlock\<close>.
\<close>

record ginService =
  cfg :: Config
  isEnabled :: bool
  name :: string
  logger :: "string option"
  svr :: "myHttpServer option"
  router :: "nat option"
  handlers :: "handler list"
  ginMode :: string
  ginNoLogger :: bool
  engines :: "Engine list"
  trace :: "event list"

text \<open>
  The environment of one \<open>Run\<close>: what \<open>net.Listen("tcp", addr)\<close> answers, and the
  results of the successive \<open>AcceptTCP\<close> calls of the serve loop. A temporary accept
  error is retried by \<open>http.Server.Serve\<close>; any other accept error ends the loop and is
  the error \<open>Serve\<close> returns. Once the listener was closed by \<open>Shutdown\<close>, \<open>Serve\<close>
  returns \<open>http.ErrServerClosed\<close> whatever the accept error is, and the list gives that
  result as \<open>Inl ErrServerClosed\<close>. If the list holds no error that ends the loop,
  \<open>Serve\<close> is still blocked.
\<close>

record env =
  netListen :: "string \<Rightarrow> error + TCPListener"
  acceptTCP :: "(error + TCPConn) list"

definition defaultPort :: int where
  "defaultPort = 3000"

definition Minute :: int where
  "Minute = 60 * 1000000000"

definition emit :: "event \<Rightarrow> ginService \<Rightarrow> ginService" where
  "emit e gs = gs\<lparr>trace := trace gs @ [e]\<rparr>"

text \<open>The listening sockets that are open after a list of events.\<close>

fun step_socks :: "TCPListener list \<Rightarrow> event \<Rightarrow> TCPListener list" where
  "step_socks ls (EvBind l) = ls @ [l]"
| "step_socks ls (EvClose l) = remove1 l ls"
| "step_socks ls e = ls"

definition open_socks :: "event list \<Rightarrow> TCPListener list" where
  "open_socks evs = foldl step_socks [] evs"


text \<open>
  The accesses to the bound port in a list of events that happen while the mutex is not
  held (\<open>held\<close> is whether it is held at the start).
\<close>

fun unguarded :: "bool \<Rightarrow> event list \<Rightarrow> event list" where
  "unguarded held [] = []"
| "unguarded held (EvLock # es) = unguarded True es"
| "unguarded held (EvUnlock # es) = unguarded False es"
| "unguarded held (EvPortRead v # es) =
     (if held then unguarded held es else EvPortRead v # unguarded held es)"
| "unguarded held (EvPortWrite v # es) =
     (if held then unguarded held es else EvPortWrite v # unguarded held es)"
| "unguarded held (e # es) = unguarded held es"

section \<open>The operations of the listener (httpserver/gin.go)\<close>

definition New :: "string \<Rightarrow> ginService" where
  "New n = \<lparr>cfg = \<lparr>Port = 0, BindAddr = [], GinNoDefault = False\<rparr>,
            isEnabled = False, name = n, logger = None, svr = None, router = None,
            handlers = [], ginMode = [], ginNoLogger = False, engines = [], trace = []\<rparr>"

definition ginService_Name :: "ginService \<Rightarrow> string" where
  "ginService_Name gs = name gs @ ''-gin''"

text \<open>\<open>InitFlags\<close> binds the flags to the fields, which stores their default values.\<close>

definition ginService_InitFlags :: "ginService \<Rightarrow> ginService" where
  "ginService_InitFlags gs =
     emit (EvPortWrite defaultPort)
       (gs\<lparr>cfg := (cfg gs)\<lparr>Port := defaultPort, BindAddr := []\<rparr>,
           ginMode := [], ginNoLogger := False\<rparr>)"

text \<open>
  \<open>Configure\<close> takes the logger, makes a fresh engine with the default middleware unless
  \<open>GinNoDefault\<close>, and a fresh server whose handler is that engine. It always returns nil.
  The mode of the gin package, which \<open>Configure\<close> sets to release when \<open>ginMode\<close> says
  so, belongs to that package and is left out.
\<close>

definition fresh_engine :: "ginService \<Rightarrow> Engine" where
  "fresh_engine gs =
     \<lparr>middleware =
        (if \<not> GinNoDefault (cfg gs)
         then (if \<not> ginNoLogger gs then [''Logger''] else [])
              @ [''PanicLogger'', ''otelgin:'' @ name gs]
         else []),
      routes = []\<rparr>"

definition ginService_Configure :: "ginService \<Rightarrow> error option \<times> ginService" where
  "ginService_Configure gs =
     (let p = length (engines gs)
      in (None,
          gs\<lparr>logger := Some ''gin'',
             engines := engines gs @ [fresh_engine gs],
             router := Some p,
             svr := Some \<lparr>Handler = p, listeners = [], inShutdown = False\<rparr>\<rparr>))"

text \<open>\<open>hdl(gs.router)\<close>: the callback changes the engine \<open>gs.router\<close> points to.\<close>

definition call_handler :: "handler \<Rightarrow> ginService \<Rightarrow> ginService" where
  "call_handler hdl gs =
     (case router gs of
        None \<Rightarrow> gs
      | Some p \<Rightarrow>
          if p < length (engines gs)
          then gs\<lparr>engines := (engines gs)[p := hdl (engines gs ! p)]\<rparr>
          else gs)"

text \<open>\<open>for _, hdl := range gs.handlers { hdl(gs.router) }\<close>\<close>

fun install :: "handler list \<Rightarrow> ginService \<Rightarrow> ginService" where
  "install [] gs = gs"
| "install (hdl # hs) gs = install hs (call_handler hdl gs)"

definition getPort :: "TCPListener \<Rightarrow> int" where
  "getPort lis = lis_port lis"

text \<open>Closing a socket that is already closed changes nothing.\<close>

definition close_listener :: "TCPListener \<Rightarrow> ginService \<Rightarrow> ginService" where
  "close_listener l gs =
     (if l \<in> set (open_socks (trace gs)) then emit (EvClose l) gs else gs)"

fun close_all :: "TCPListener list \<Rightarrow> ginService \<Rightarrow> ginService" where
  "close_all [] gs = gs"
| "close_all (l # ls) gs = close_all ls (close_listener l gs)"

section \<open>The keep-alive listener and the server (package httpserver)\<close>

definition SetKeepAlive :: "bool \<Rightarrow> TCPConn \<Rightarrow> TCPConn" where
  "SetKeepAlive b tc = tc\<lparr>keepAlive := b\<rparr>"

definition SetKeepAlivePeriod :: "int \<Rightarrow> TCPConn \<Rightarrow> TCPConn" where
  "SetKeepAlivePeriod d tc = tc\<lparr>keepAlivePeriod := d\<rparr>"

text \<open>
  \<open>tcpKeepAliveListener.Accept\<close>, applied to the result of \<open>ln.AcceptTCP()\<close>: an error is
  returned as it is; on a connection both options are set (the errors of the two setters
  are discarded by the source) and the connection is returned.
\<close>

definition Accept :: "error + TCPConn \<Rightarrow> error + TCPConn" where
  "Accept r =
     (case r of
        Inl err \<Rightarrow> Inl err
      | Inr tc \<Rightarrow> Inr (SetKeepAlivePeriod (3 * Minute) (SetKeepAlive True tc)))"

text \<open>
  The accept loop of \<open>http.Server.Serve\<close> on the keep-alive listener: each connection
  that \<open>Accept\<close> returns is handed to the server; after a temporary error the loop
  waits and calls \<open>Accept\<close> again; any other error ends the loop and is returned.
\<close>

fun serve_loop :: "(error + TCPConn) list \<Rightarrow> ginService \<Rightarrow> ginService \<times> error option" where
  "serve_loop [] gs = (gs, None)"
| "serve_loop (r # rs) gs =
     (case Accept r of
        Inl err \<Rightarrow> if Temporary err then serve_loop rs gs else (gs, Some err)
      | Inr c \<Rightarrow> serve_loop rs (emit (EvConn c) gs))"

definition track :: "TCPListener \<Rightarrow> ginService \<Rightarrow> ginService" where
  "track lis gs =
     gs\<lparr>svr := map_option (\<lambda>s. s\<lparr>listeners := listeners s @ [lis]\<rparr>) (svr gs)\<rparr>"

definition untrack :: "TCPListener \<Rightarrow> ginService \<Rightarrow> ginService" where
  "untrack lis gs =
     gs\<lparr>svr := map_option (\<lambda>s. s\<lparr>listeners := remove1 lis (listeners s)\<rparr>) (svr gs)\<rparr>"

text \<open>
  \<open>myHttpServer.Serve\<close>: \<open>srv.Server.Serve(tcpKeepAliveListener{lis})\<close>. Every listener
  of the model is a TCP listener, as \<open>net.Listen("tcp", addr)\<close> returns one, so the type
  assertion of the source holds. A nil server panics; a server already shut down closes
  the listener and returns \<open>ErrServerClosed\<close>; otherwise the listener is tracked, the
  loop runs, and when it ends the listener is closed and the error returned.
\<close>

definition myHttpServer_Serve ::
  "env \<Rightarrow> TCPListener \<Rightarrow> ginService \<Rightarrow> ginService \<times> error option exec" where
  "myHttpServer_Serve e lis gs =
     (case svr gs of
        None \<Rightarrow> (gs, Panic)
      | Some s \<Rightarrow>
          if inShutdown s then (close_listener lis gs, Ret (Some ErrServerClosed))
          else (case serve_loop (acceptTCP e) (track lis gs) of
                  (gs1, None) \<Rightarrow> (gs1, Block)
                | (gs1, Some err) \<Rightarrow> (close_listener lis (untrack lis gs1), Ret (Some err))))"

text \<open>
  \<open>http.Server.Shutdown\<close> on \<open>gs.svr\<close>: the server is marked, its listeners are closed,
  and the call returns when the connections are idle.
\<close>

definition Shutdown :: "ginService \<Rightarrow> ginService" where
  "Shutdown gs =
     (case svr gs of
        None \<Rightarrow> gs
      | Some s \<Rightarrow>
          emit EvShutdown
            (close_all (listeners s) (gs\<lparr>svr := Some (s\<lparr>listeners := [], inShutdown := True\<rparr>)\<rparr>)))"

section \<open>Run, Port, Stop, AddHandler and Reload\<close>

text \<open>
  The first part of \<open>Run\<close>, up to the line that stores the port of the live listener.
  A listener that is not enabled returns nil at once. A failure of \<open>net.Listen\<close> is given
  to \<open>logger.Fatalf\<close>, which logs and ends the process with status 1 (the logger is a
  logrus entry). The debug and info lines that \<open>Run\<close> logs are left out.
\<close>

definition Run_listen :: "env \<Rightarrow> ginService \<Rightarrow> ginService \<times> (error option exec + TCPListener)" where
  "Run_listen e gs =
     (if \<not> isEnabled gs then (gs, Inl (Ret None))
      else case ginService_Configure gs of
        (Some err, gs1) \<Rightarrow> (gs1, Inl (Ret (Some err)))
      | (None, gs1) \<Rightarrow>
          (let gs2 = install (handlers gs1) gs1;
               gs3 = emit (EvPortRead (Port (cfg gs2))) gs2;
               addr = formatBindAddr (BindAddr (cfg gs3)) (Port (cfg gs3));
               gs4 = emit (EvListen addr) gs3
           in case netListen e addr of
                Inl err \<Rightarrow> (emit (EvExit 1) gs4, Inl (Exit 1))
              | Inr lis \<Rightarrow>
                  (let gs5 = emit (EvBind lis) gs4;
                       gs6 = emit (EvPortWrite (getPort lis))
                               (gs5\<lparr>cfg := (cfg gs5)\<lparr>Port := getPort lis\<rparr>\<rparr>)
                   in (gs6, Inr lis))))"

text \<open>
  \<open>Run\<close>: the first part, then \<open>gs.svr.Serve(lis)\<close> and
  \<^verbatim>\<open>if err != nil && err == http.ErrServerClosed { return nil }; return err\<close>.
\<close>

definition ginService_Run :: "env \<Rightarrow> ginService \<Rightarrow> ginService \<times> error option exec" where
  "ginService_Run e gs =
     (case Run_listen e gs of
        (gs1, Inl out) \<Rightarrow> (gs1, out)
      | (gs1, Inr lis) \<Rightarrow>
          (case myHttpServer_Serve e lis gs1 of
             (gs2, Ret err) \<Rightarrow>
               if err \<noteq> None \<and> err = Some ErrServerClosed then (gs2, Ret None)
               else (gs2, Ret err)
           | (gs2, out) \<Rightarrow> (gs2, out)))"

text \<open>\<open>Port\<close> locks the mutex, reads the port and unlocks.\<close>

definition ginService_Port :: "ginService \<Rightarrow> int \<times> ginService" where
  "ginService_Port gs =
     (let gs1 = emit EvLock gs;
          p = Port (cfg gs1);
          gs2 = emit (EvPortRead p) gs1
      in (p, emit EvUnlock gs2))"

text \<open>
  The goroutine of \<open>Stop\<close>:
  \<^verbatim>\<open>if gs.svr != nil { _ = gs.svr.Shutdown(context.Background()) }; c <- true\<close>
\<close>

definition ginService_Stop :: "ginService \<Rightarrow> gstep list" where
  "ginService_Stop gs = (if svr gs \<noteq> None then [Work ServerShutdown] else []) @ [Send True]"

fun do_work :: "ginService \<Rightarrow> work \<Rightarrow> ginService" where
  "do_work gs ServerShutdown = Shutdown gs"
| "do_work gs w = gs"

text \<open>
  \<open><-c\<close>: the receive on the channel of a goroutine. The work before the first send is
  done, then the value is received.
\<close>

definition recv :: "gstep list \<Rightarrow> ginService \<Rightarrow> ginService \<times> bool option" where
  "recv body gs =
     (case split_at_send body of
        (pre, None, post) \<Rightarrow> (foldl do_work gs (works pre), None)
      | (pre, Some v, post) \<Rightarrow> (emit (EvAck v) (foldl do_work gs (works pre)), Some v))"

definition ginService_URI :: "ginService \<Rightarrow> string" where
  "ginService_URI gs = formatBindAddr (BindAddr (cfg gs)) (Port (cfg gs))"

definition ginService_AddHandler :: "handler \<Rightarrow> ginService \<Rightarrow> ginService" where
  "ginService_AddHandler hdl gs = gs\<lparr>isEnabled := True, handlers := handlers gs @ [hdl]\<rparr>"

text \<open>
  \<^verbatim>\<open>gs.Config = config; <-gs.Stop(); return gs.Run()\<close>
\<close>

definition ginService_Reload :: "env \<Rightarrow> Config \<Rightarrow> ginService \<Rightarrow> ginService \<times> error option exec" where
  "ginService_Reload e config gs =
     (let gs1 = emit (EvPortWrite (Port config)) (gs\<lparr>cfg := config\<rparr>)
      in case recv (ginService_Stop gs1) gs1 of
           (gs2, None) \<Rightarrow> (gs2, Block)
         | (gs2, Some v) \<Rightarrow> ginService_Run e gs2)"

definition ginService_GetConfig :: "ginService \<Rightarrow> Config" where
  "ginService_GetConfig gs = cfg gs"

definition ginService_IsEnabled :: "ginService \<Rightarrow> bool" where
  "ginService_IsEnabled gs = isEnabled gs"

definition ginService_IsRunning :: "ginService \<Rightarrow> bool" where
  "ginService_IsRunning gs = (svr gs \<noteq> None)"

text \<open>
  A listener is serving on \<open>lis\<close>: it is enabled, its server tracks \<open>lis\<close> and is not
  shut down, and \<open>lis\<close> is the one open socket.
\<close>

definition serving :: "ginService \<Rightarrow> TCPListener \<Rightarrow> bool" where
  "serving gs lis =
     (isEnabled gs \<and> open_socks (trace gs) = [lis] \<and>
      (case svr gs of None \<Rightarrow> False | Some s \<Rightarrow> listeners s = [lis] \<and> \<not> inShutdown s))"

text \<open>
  The calls a host can make on a listener, one after the other; \<open>CallStop\<close> is
  \<open>Stop\<close> followed by the receive on its channel.
\<close>

datatype call =
    CallInitFlags
  | CallConfigure
  | CallRun
  | CallPort
  | CallStop
  | CallAddHandler handler
  | CallReload Config

fun exec_call :: "env \<Rightarrow> ginService \<Rightarrow> call \<Rightarrow> ginService" where
  "exec_call e gs CallInitFlags = ginService_InitFlags gs"
| "exec_call e gs CallConfigure = snd (ginService_Configure gs)"
| "exec_call e gs CallRun = fst (ginService_Run e gs)"
| "exec_call e gs CallPort = snd (ginService_Port gs)"
| "exec_call e gs CallStop = fst (recv (ginService_Stop gs) gs)"
| "exec_call e gs (CallAddHandler hdl) = ginService_AddHandler hdl gs"
| "exec_call e gs (CallReload config) = fst (ginService_Reload e config gs)"

fun is_AddHandler :: "call \<Rightarrow> bool" where
  "is_AddHandler (CallAddHandler hdl) = True"
| "is_AddHandler c = False"

section \<open>The simple plugin (plugin/simple/simple.go)\<close>

record simplePlugin =
  sp_name :: string
  sp_value :: string

definition NewSimplePlugin :: "string \<Rightarrow> simplePlugin" where
  "NewSimplePlugin n = \<lparr>sp_name = n, sp_value = []\<rparr>"

definition simplePlugin_InitFlags :: "simplePlugin \<Rightarrow> simplePlugin" where
  "simplePlugin_InitFlags s = s\<lparr>sp_value := ''default value''\<rparr>"

definition simplePlugin_Configure :: "simplePlugin \<Rightarrow> error option" where
  "simplePlugin_Configure s =
     (if sp_value s = [] then Some (OtherError ''simple plugin value is empty'') else None)"

definition simplePlugin_Run :: "simplePlugin \<Rightarrow> error option" where
  "simplePlugin_Run s =
     (case simplePlugin_Configure s of Some err \<Rightarrow> Some err | None \<Rightarrow> None)"

text \<open>The goroutine of \<open>Stop\<close>: \<^verbatim>\<open>c <- true\<close>\<close>

definition simplePlugin_Stop :: "simplePlugin \<Rightarrow> gstep list" where
  "simplePlugin_Stop s = [Send True]"

section \<open>The otel plugin\<close>

text \<open>
  The fields of \<open>OtelPlugin\<close> that \<open>Configure\<close>, \<open>Run\<close> and \<open>Stop\<close> use. \<open>op_shutdown\<close>
  is the function value \<open>op.shutdown\<close>: \<open>None\<close> is nil, \<open>Some fs\<close> is the closure made by
  \<open>SetupOTelSDK\<close>, which shuts down the providers \<open>fs\<close>.
\<close>

record OtelPlugin =
  op_name :: string
  op_prefix :: string
  op_isEnabled :: bool
  op_serviceName :: string
  op_serviceVersion :: string
  op_exporterOtlpEndpoint :: string
  op_exporterOtlpProtocol :: string
  op_isEnabledTrace :: bool
  op_isEnabledMetric :: bool
  op_isEnabledLog :: bool
  op_shutdown :: "string list option"

definition NewOtelPlugin :: "string \<Rightarrow> OtelPlugin" where
  "NewOtelPlugin n =
     \<lparr>op_name = n, op_prefix = n, op_isEnabled = True, op_serviceName = [],
      op_serviceVersion = [], op_exporterOtlpEndpoint = [], op_exporterOtlpProtocol = [],
      op_isEnabledTrace = False, op_isEnabledMetric = False, op_isEnabledLog = False,
      op_shutdown = None\<rparr>"

text \<open>\<open>InitFlags\<close> stores the defaults of the flags; the three features default to true.\<close>

definition OtelPlugin_InitFlags :: "OtelPlugin \<Rightarrow> OtelPlugin" where
  "OtelPlugin_InitFlags op =
     op\<lparr>op_isEnabled := True, op_serviceName := [], op_serviceVersion := [],
        op_exporterOtlpEndpoint := [], op_exporterOtlpProtocol := ''grpc'',
        op_isEnabledTrace := True, op_isEnabledMetric := True, op_isEnabledLog := True\<rparr>"

definition OtelPlugin_Configure :: "OtelPlugin \<Rightarrow> error option" where
  "OtelPlugin_Configure op =
     (if op_serviceName op = [] then Some (OtherError ''otel service name is empty'')
      else if op_serviceVersion op = [] then Some (OtherError ''otel service version is empty'')
      else if op_exporterOtlpEndpoint op = []
        then Some (OtherError ''if OTEL_IS_ENABLED=true, then otel exporter otlp endpoint is not empty, e.g. http://localhost:4317'')
      else None)"

text \<open>
  \<open>SetupOTelSDK\<close>: for each enabled feature, in the order trace, metric, log, the provider
  is made (\<open>mk\<close> says whether that fails) and its \<open>Shutdown\<close> is appended to
  \<open>shutdownFuncs\<close>. A failure calls the cleanup, which empties \<open>shutdownFuncs\<close>, and
  returns the error. The closure returned is never nil.
\<close>

fun setup_providers ::
  "(string \<Rightarrow> error option) \<Rightarrow> (bool \<times> string) list \<Rightarrow> string list \<Rightarrow> string list \<times> error option" where
  "setup_providers mk [] fs = (fs, None)"
| "setup_providers mk ((enabled, p) # ps) fs =
     (if enabled
      then (case mk p of
              Some err \<Rightarrow> ([], Some err)
            | None \<Rightarrow> setup_providers mk ps (fs @ [p]))
      else setup_providers mk ps fs)"

definition OtelPlugin_SetupOTelSDK ::
  "(string \<Rightarrow> error option) \<Rightarrow> OtelPlugin \<Rightarrow> string list \<times> error option" where
  "OtelPlugin_SetupOTelSDK mk op =
     setup_providers mk
       [(op_isEnabledTrace op, ''trace''), (op_isEnabledMetric op, ''metric''),
        (op_isEnabledLog op, ''log'')] []"

definition OtelPlugin_Run :: "(string \<Rightarrow> error option) \<Rightarrow> OtelPlugin \<Rightarrow> error option \<times> OtelPlugin" where
  "OtelPlugin_Run mk op =
     (if \<not> op_isEnabled op then (None, op)
      else case OtelPlugin_Configure op of
        Some err \<Rightarrow> (Some err, op)
      | None \<Rightarrow>
          (case OtelPlugin_SetupOTelSDK mk op of
             (fs, err) \<Rightarrow> (err, op\<lparr>op_shutdown := Some fs\<rparr>)))"

text \<open>
  The goroutine of \<open>Stop\<close>: \<^verbatim>\<open>c <- true; op.shutdown(op.ctx)\<close>. Calling a nil
  function value panics.
\<close>

definition OtelPlugin_Stop :: "OtelPlugin \<Rightarrow> gstep list" where
  "OtelPlugin_Stop op =
     [Send True,
      Work (case op_shutdown op of None \<Rightarrow> NilFuncCall | Some fs \<Rightarrow> OtelShutdown fs)]"

section \<open>What a run of the listener is observed to do\<close>

text \<open>
  The connections the serve loop hands to the server, and the error that ends it (the
  first accept error that is not temporary), read off the results of the successive
  \<open>AcceptTCP\<close> calls.
\<close>

fun accepted :: "(error + TCPConn) list \<Rightarrow> TCPConn list" where
  "accepted [] = []"
| "accepted (r # rs) =
     (case Accept r of
        Inl err \<Rightarrow> if Temporary err then accepted rs else []
      | Inr c \<Rightarrow> c # accepted rs)"

fun first_error :: "(error + TCPConn) list \<Rightarrow> error option" where
  "first_error [] = None"
| "first_error (Inl err # rs) = (if Temporary err then first_error rs else Some err)"
| "first_error (Inr c # rs) = first_error rs"

fun conns :: "event list \<Rightarrow> TCPConn list" where
  "conns [] = []"
| "conns (EvConn c # es) = c # conns es"
| "conns (e # es) = conns es"

text \<open>The events of one \<open>Run\<close> of an enabled listener.\<close>

definition run_events :: "env \<Rightarrow> ginService \<Rightarrow> event list" where
  "run_events e gs =
     (let p = Port (cfg gs); addr = formatBindAddr (BindAddr (cfg gs)) p
      in [EvPortRead p, EvListen addr] @
         (case netListen e addr of
            Inl err \<Rightarrow> [EvExit 1]
          | Inr lis \<Rightarrow>
              [EvBind lis, EvPortWrite (lis_port lis)] @ map EvConn (accepted (acceptTCP e)) @
              (case first_error (acceptTCP e) of None \<Rightarrow> [] | Some err \<Rightarrow> [EvClose lis])))"

text \<open>The engine behind the handler of the listener's server, if there is a server.\<close>

definition served_engine :: "ginService \<Rightarrow> Engine option" where
  "served_engine gs =
     (case svr gs of
        None \<Rightarrow> None
      | Some s \<Rightarrow> if Handler s < length (engines gs) then Some (engines gs ! Handler s) else None)"

section \<open>Sample inputs\<close>

text \<open>
  The route of the example service (\<open>engine.GET("/ping", ...)\<close>), a second route, an
  operating system that binds every address to port 40001, one that refuses every
  address, and an otel plugin configured through its flags.
\<close>

definition ping_handler :: handler where
  "ping_handler en = en\<lparr>routes := routes en @ [''GET /ping'']\<rparr>"

definition late_handler :: handler where
  "late_handler en = en\<lparr>routes := routes en @ [''GET /late'']\<rparr>"

definition sample_listener :: TCPListener where
  "sample_listener = \<lparr>lis_host = ''::'', lis_port = 40001\<rparr>"

definition bind_any :: "string \<Rightarrow> error + TCPListener" where
  "bind_any addr = Inr sample_listener"

definition refuse_all :: "string \<Rightarrow> error + TCPListener" where
  "refuse_all addr = Inl (OtherError ''listen tcp: bind: address already in use'')"

definition sample_conn :: TCPConn where
  "sample_conn = \<lparr>remote = ''192.0.2.7:51000'', keepAlive = False, keepAlivePeriod = 0\<rparr>"

definition sample_env :: env where
  "sample_env = \<lparr>netListen = bind_any, acceptTCP = [Inr sample_conn, Inl ErrServerClosed]\<rparr>"

definition refusing_env :: env where
  "refusing_env = \<lparr>netListen = refuse_all, acceptTCP = []\<rparr>"

definition sample_service :: ginService where
  "sample_service = ginService_AddHandler ping_handler (New ''demo'')"

definition no_failure :: "string \<Rightarrow> error option" where
  "no_failure p = None"

definition sample_otel :: OtelPlugin where
  "sample_otel =
     (OtelPlugin_InitFlags (NewOtelPlugin ''otel''))
       \<lparr>op_serviceName := ''demo'', op_serviceVersion := ''1.0.0'',
        op_exporterOtlpEndpoint := ''http://localhost:4317''\<rparr>"

definition second_listener :: TCPListener where
  "second_listener = \<lparr>lis_host = ''::1'', lis_port = 8080\<rparr>"

definition bind_second :: "string \<Rightarrow> error + TCPListener" where
  "bind_second addr = Inr second_listener"

definition second_env :: env where
  "second_env = \<lparr>netListen = bind_second, acceptTCP = [Inr sample_conn, Inl ErrServerClosed]\<rparr>"

definition second_config :: Config where
  "second_config = \<lparr>Port = 8080, BindAddr = ''::1'', GinNoDefault = True\<rparr>"

text \<open>The sample service while its first \<open>Run\<close> is serving.\<close>

definition sample_serving :: ginService where
  "sample_serving = track sample_listener (fst (Run_listen sample_env sample_service))"

section \<open>Basic facts about the operations\<close>

lemma emit_fields [simp]:
  "trace (emit ev gs) = trace gs @ [ev]"
  "cfg (emit ev gs) = cfg gs"
  "isEnabled (emit ev gs) = isEnabled gs"
  "svr (emit ev gs) = svr gs"
  "router (emit ev gs) = router gs"
  "handlers (emit ev gs) = handlers gs"
  "engines (emit ev gs) = engines gs"
  "name (emit ev gs) = name gs"
  by (simp_all add: emit_def)

lemma serve_loop_eq:
  "serve_loop rs gs = (gs\<lparr>trace := trace gs @ map EvConn (accepted rs)\<rparr>, first_error rs)"
proof (induction rs arbitrary: gs)
  case Nil
  show ?case by simp
next
  case (Cons r rs)
  show ?case
  proof (cases r)
    case (Inl err)
    then show ?thesis by (simp add: Accept_def Cons.IH)
  next
    case (Inr c)
    then show ?thesis by (simp add: Accept_def Cons.IH emit_def)
  qed
qed

lemma open_socks_append: "open_socks (t @ es) = foldl step_socks (open_socks t) es"
  by (simp add: open_socks_def)

lemma step_socks_conns: "foldl step_socks ls (map EvConn cs) = ls"
  by (induction cs) simp_all

lemma install_eq:
  "router gs = Some p \<Longrightarrow> p < length (engines gs) \<Longrightarrow>
   install hs gs =
     gs\<lparr>engines := (engines gs)[p := foldl (\<lambda>en hdl. hdl en) (engines gs ! p) hs]\<rparr>"
proof (induction hs arbitrary: gs)
  case Nil
  then show ?case by simp
next
  case (Cons hdl hs)
  then show ?case by (simp add: call_handler_def)
qed

lemma Run_listen_enabled:
  assumes "isEnabled gs"
  shows "Run_listen e gs =
    (let p = length (engines gs);
         gs2 = gs\<lparr>logger := Some ''gin'',
                 engines := engines gs @
                   [foldl (\<lambda>en hdl. hdl en) (fresh_engine gs) (handlers gs)],
                 router := Some p,
                 svr := Some \<lparr>Handler = p, listeners = [], inShutdown = False\<rparr>\<rparr>;
         addr = formatBindAddr (BindAddr (cfg gs)) (Port (cfg gs))
     in case netListen e addr of
          Inl err \<Rightarrow>
            (gs2\<lparr>trace := trace gs @ [EvPortRead (Port (cfg gs)), EvListen addr, EvExit 1]\<rparr>,
             Inl (Exit 1))
        | Inr lis \<Rightarrow>
            (gs2\<lparr>cfg := (cfg gs)\<lparr>Port := lis_port lis\<rparr>,
                 trace := trace gs @ [EvPortRead (Port (cfg gs)), EvListen addr, EvBind lis,
                                      EvPortWrite (lis_port lis)]\<rparr>,
             Inr lis))"
  using assms
  by (simp add: Run_listen_def ginService_Configure_def Let_def install_eq getPort_def emit_def
      split: sum.splits)

lemma open_after_bind:
  "lis \<in> set (open_socks
     (t @ EvPortRead p # EvListen a # EvBind lis # EvPortWrite q # map EvConn cs))"
  by (simp add: open_socks_append step_socks_conns)

lemma Run_trace:
  assumes "isEnabled gs"
  shows "trace (fst (ginService_Run e gs)) = trace gs @ run_events e gs"
  using assms
  by (simp add: ginService_Run_def Run_listen_enabled Let_def myHttpServer_Serve_def
      track_def untrack_def serve_loop_eq close_listener_def run_events_def open_after_bind
      split: sum.splits option.splits)

lemma Run_result:
  assumes "isEnabled gs"
  shows "snd (ginService_Run e gs) =
     (case netListen e (formatBindAddr (BindAddr (cfg gs)) (Port (cfg gs))) of
        Inl err \<Rightarrow> Exit 1
      | Inr lis \<Rightarrow>
          (case first_error (acceptTCP e) of
             None \<Rightarrow> Block
           | Some err \<Rightarrow> if err = ErrServerClosed then Ret None else Ret (Some err)))"
  using assms
  by (simp add: ginService_Run_def Run_listen_enabled Let_def myHttpServer_Serve_def
      track_def untrack_def serve_loop_eq close_listener_def
      split: sum.splits option.splits)

lemma Run_disabled: "\<not> isEnabled gs \<Longrightarrow> ginService_Run e gs = (gs, Ret None)"
  by (simp add: ginService_Run_def Run_listen_def)

section \<open>The bind address\<close>

lemma Contains_single: "Contains s [c] \<longleftrightarrow> c \<in> set s"
  by (induction s) auto

text \<open>
  Claim C8, as the code has it. The resolved bind address is the address, a colon and the
  port in decimal; the address is put in brackets exactly when it contains a colon and
  no opening bracket. An address that contains a colon and an opening bracket (an IPv6
  literal already in brackets) is left as it is, and an address without a colon is never
  put in brackets.
\<close>

theorem formatBindAddr_brackets:
  "formatBindAddr s p =
     (if CHR '':'' \<in> set s \<and> CHR ''['' \<notin> set s then ''['' @ s @ '']'' else s)
     @ '':'' @ fmt_d p"
  by (simp add: formatBindAddr_def Contains_single)

theorem formatBindAddr_brackets_witness:
  "formatBindAddr ''::1'' 8080 = ''[::1]:8080'' \<and>
   formatBindAddr ''[::1]'' 8080 = ''[::1]:8080'' \<and>
   formatBindAddr ''127.0.0.1'' 3000 = ''127.0.0.1:3000''"
  using formatBindAddr_brackets [of "''::1''" 8080]
    formatBindAddr_brackets [of "''[::1]''" 8080]
    formatBindAddr_brackets [of "''127.0.0.1''" 3000]
  by (simp add: fmt_d_def decimal.simps digit_def)

text \<open>
  Claim C8 as stated fails: the address \<open>[::1]\<close> contains a colon, and the result is
  not that address in brackets followed by the port.
\<close>

theorem formatBindAddr_bracketed_literal_counterexample:
  "CHR '':'' \<in> set ''[::1]'' \<and>
   formatBindAddr ''[::1]'' 80 \<noteq> ''['' @ ''[::1]'' @ '']'' @ '':'' @ fmt_d 80"
  by (simp add: formatBindAddr_def fmt_d_def decimal.simps digit_def)

section \<open>The acknowledgment of Stop\<close>

lemma ginService_Stop_sent: "sent (ginService_Stop gs) = [True]"
  by (simp add: ginService_Stop_def)

lemma ginService_Stop_order:
  "pending_at_ack (ginService_Stop gs) = [] \<and>
   done_before_ack (ginService_Stop gs) = works (ginService_Stop gs)"
  by (simp add: ginService_Stop_def pending_at_ack_def done_before_ack_def)

lemma simplePlugin_Stop_order:
  "sent (simplePlugin_Stop s) = [True] \<and> pending_at_ack (simplePlugin_Stop s) = []"
  by (simp add: simplePlugin_Stop_def pending_at_ack_def)

lemma OtelPlugin_Stop_pending:
  "sent (OtelPlugin_Stop op) = [True] \<and> done_before_ack (OtelPlugin_Stop op) = [] \<and>
   pending_at_ack (OtelPlugin_Stop op) = works (OtelPlugin_Stop op) \<and>
   works (OtelPlugin_Stop op) \<noteq> []"
  by (simp add: OtelPlugin_Stop_def pending_at_ack_def done_before_ack_def)

text \<open>
  Claim C1 at the otel plugin. After \<open>Run\<close> has set up the three providers, the goroutine
  of \<open>Stop\<close> sends the acknowledgment first: when the caller receives \<open>true\<close>, no
  shutdown work has been done and the shutdown of the three providers is still to run.
\<close>

theorem OtelPlugin_Stop_acknowledges_before_shutdown:
  "fst (OtelPlugin_Run no_failure sample_otel) = None \<and>
   split_at_send (OtelPlugin_Stop (snd (OtelPlugin_Run no_failure sample_otel))) =
     ([], Some True, [Work (OtelShutdown [''trace'', ''metric'', ''log''])]) \<and>
   pending_at_ack (OtelPlugin_Stop (snd (OtelPlugin_Run no_failure sample_otel))) =
     [OtelShutdown [''trace'', ''metric'', ''log'']]"
  by (simp add: OtelPlugin_Run_def OtelPlugin_Configure_def OtelPlugin_SetupOTelSDK_def
      OtelPlugin_Stop_def sample_otel_def OtelPlugin_InitFlags_def NewOtelPlugin_def
      no_failure_def pending_at_ack_def)

text \<open>
  Claim C10. On a listener that has no server (\<open>gs.svr\<close> is nil, as after \<open>New\<close>), the
  goroutine of \<open>Stop\<close> does no shutdown work and sends \<open>true\<close> once; the caller's
  receive gets \<open>true\<close>, and nothing of the listener changes but the record of that
  acknowledgment.
\<close>

theorem ginService_Stop_without_server:
  assumes "svr gs = None"
  shows "ginService_Stop gs = [Send True] \<and>
         works (ginService_Stop gs) = [] \<and>
         sent (ginService_Stop gs) = [True] \<and>
         recv (ginService_Stop gs) gs = (emit (EvAck True) gs, Some True)"
  using assms by (simp add: ginService_Stop_def recv_def)

theorem ginService_Stop_without_server_witness:
  "svr (New ''demo'') = None \<and>
   ginService_Stop (New ''demo'') = [Send True] \<and>
   recv (ginService_Stop (New ''demo'')) (New ''demo'') =
     (emit (EvAck True) (New ''demo''), Some True)"
proof -
  have h: "svr (New ''demo'') = None" by (simp add: New_def)
  show ?thesis
    using h ginService_Stop_without_server [OF h] by blast
qed

section \<open>What Run returns\<close>

lemma sample_enabled: "isEnabled sample_service"
  by (simp add: sample_service_def ginService_AddHandler_def New_def)

text \<open>
  Claim C3, as the code has it. For every enabled listener, \<open>Run\<close> blocks while the
  serve loop has not ended; a temporary accept error does not end the loop, the server
  retries. When the loop ends with the close error of a shutdown
  (\<open>http.ErrServerClosed\<close>), \<open>Run\<close> returns nil, and when it ends with any other error,
  \<open>Run\<close> returns that error. A failure to open the TCP listener is not returned: it is
  given to \<open>logger.Fatalf\<close>, and the process ends with status 1.
\<close>

theorem ginService_Run_result:
  assumes "isEnabled gs"
  shows "snd (ginService_Run e gs) =
     (case netListen e (formatBindAddr (BindAddr (cfg gs)) (Port (cfg gs))) of
        Inl err \<Rightarrow> Exit 1
      | Inr lis \<Rightarrow>
          (case first_error (acceptTCP e) of
             None \<Rightarrow> Block
           | Some err \<Rightarrow> if err = ErrServerClosed then Ret None else Ret (Some err)))"
  using assms by (rule Run_result)

theorem ginService_Run_result_witness:
  "isEnabled sample_service \<and>
   snd (ginService_Run sample_env sample_service) = Ret None \<and>
   snd (ginService_Run
          (sample_env\<lparr>acceptTCP :=
             [Inr sample_conn, Inl (OtherError ''accept tcp: accept4: invalid argument'')]\<rparr>)
          sample_service)
     = Ret (Some (OtherError ''accept tcp: accept4: invalid argument'')) \<and>
   snd (ginService_Run
          (sample_env\<lparr>acceptTCP :=
             [Inl (TemporaryError ''accept tcp: accept4: too many open files''),
              Inl (TemporaryError ''accept tcp: accept4: too many open files'')]\<rparr>)
          sample_service)
     = Block \<and>
   snd (ginService_Run
          (sample_env\<lparr>acceptTCP :=
             [Inl (TemporaryError ''accept tcp: accept4: too many open files''),
              Inr sample_conn, Inl ErrServerClosed]\<rparr>)
          sample_service)
     = Ret None \<and>
   snd (ginService_Run refusing_env sample_service) = Exit 1"
  using ginService_Run_result [OF sample_enabled, of sample_env]
    ginService_Run_result [OF sample_enabled,
      of "sample_env\<lparr>acceptTCP :=
            [Inr sample_conn, Inl (OtherError ''accept tcp: accept4: invalid argument'')]\<rparr>"]
    ginService_Run_result [OF sample_enabled,
      of "sample_env\<lparr>acceptTCP :=
            [Inl (TemporaryError ''accept tcp: accept4: too many open files''),
             Inl (TemporaryError ''accept tcp: accept4: too many open files'')]\<rparr>"]
    ginService_Run_result [OF sample_enabled,
      of "sample_env\<lparr>acceptTCP :=
            [Inl (TemporaryError ''accept tcp: accept4: too many open files''),
             Inr sample_conn, Inl ErrServerClosed]\<rparr>"]
    ginService_Run_result [OF sample_enabled, of refusing_env]
  by (simp add: sample_enabled sample_env_def refusing_env_def bind_any_def refuse_all_def)

text \<open>
  Claim C3 as stated fails: when \<open>net.Listen\<close> refuses the address, \<open>Run\<close> on the
  enabled sample service does not return that error; the process ends with status 1.
\<close>

theorem ginService_Run_listen_failure_counterexample:
  "isEnabled sample_service \<and>
   netListen refusing_env
       (formatBindAddr (BindAddr (cfg sample_service)) (Port (cfg sample_service)))
     = Inl (OtherError ''listen tcp: bind: address already in use'') \<and>
   snd (ginService_Run refusing_env sample_service)
     \<noteq> Ret (Some (OtherError ''listen tcp: bind: address already in use'')) \<and>
   snd (ginService_Run refusing_env sample_service) = Exit 1"
  by (simp add: Run_result sample_enabled refusing_env_def refuse_all_def)

section \<open>Keep-alive on accepted connections\<close>

lemma accepted_policy:
  "\<forall>c \<in> set (accepted rs). keepAlive c \<and> keepAlivePeriod c = 3 * Minute"
  by (induction rs)
    (auto simp: Accept_def SetKeepAlive_def SetKeepAlivePeriod_def split: sum.splits)

lemma conns_append: "conns (es @ fs) = conns es @ conns fs"
  by (induction es rule: conns.induct) simp_all

lemma conns_map_EvConn: "conns (map EvConn cs) = cs"
  by (induction cs) simp_all

lemma conns_run_events:
  "conns (run_events e gs) =
     (case netListen e (formatBindAddr (BindAddr (cfg gs)) (Port (cfg gs))) of
        Inl err \<Rightarrow> []
      | Inr lis \<Rightarrow> accepted (acceptTCP e))"
  by (simp add: run_events_def Let_def conns_append conns_map_EvConn
      split: sum.splits option.splits)

text \<open>
  Claim C9. Every connection that a \<open>Run\<close> of the listener hands to its server has
  keep-alive enabled and a keep-alive period of 3 minutes (180 seconds, in nanoseconds);
  so has every connection the accept loop returns, and \<open>Accept\<close> changes nothing else
  of a connection. The two setters are modelled by their effect; the source discards
  their error results.
\<close>

theorem accepted_connections_keep_alive:
  "(\<forall>c \<in> set (conns (drop (length (trace gs)) (trace (fst (ginService_Run e gs))))).
      keepAlive c \<and> keepAlivePeriod c = 3 * Minute) \<and>
   (\<forall>c \<in> set (accepted rs). keepAlive c \<and> keepAlivePeriod c = 3 * Minute) \<and>
   Accept (Inr tc) = Inr (tc\<lparr>keepAlive := True, keepAlivePeriod := 3 * Minute\<rparr>) \<and>
   3 * Minute = 180 * 1000000000"
proof (cases "isEnabled gs")
  case True
  then show ?thesis
    using accepted_policy [of "acceptTCP e"] accepted_policy [of rs]
    by (simp add: Run_trace conns_run_events Accept_def SetKeepAlive_def SetKeepAlivePeriod_def
        Minute_def split: sum.splits)
next
  case False
  then show ?thesis
    using accepted_policy [of rs]
    by (simp add: Run_disabled Accept_def SetKeepAlive_def SetKeepAlivePeriod_def Minute_def)
qed

lemma sample_run_conns:
  "conns (drop (length (trace sample_service))
            (trace (fst (ginService_Run sample_env sample_service))))
     = [sample_conn\<lparr>keepAlive := True, keepAlivePeriod := 3 * Minute\<rparr>]"
  by (simp add: Run_trace sample_enabled conns_run_events sample_env_def bind_any_def
      Accept_def SetKeepAlive_def SetKeepAlivePeriod_def)

theorem accepted_connections_keep_alive_witness:
  "conns (drop (length (trace sample_service))
            (trace (fst (ginService_Run sample_env sample_service))))
     = [sample_conn\<lparr>keepAlive := True, keepAlivePeriod := 180000000000\<rparr>] \<and>
   keepAlive (sample_conn\<lparr>keepAlive := True, keepAlivePeriod := 180000000000\<rparr>) \<and>
   keepAlivePeriod (sample_conn\<lparr>keepAlive := True, keepAlivePeriod := 180000000000\<rparr>)
     = 3 * Minute \<and>
   \<not> keepAlive sample_conn"
  using accepted_connections_keep_alive [of sample_service sample_env "[]" sample_conn]
  by (simp add: sample_run_conns Minute_def sample_conn_def)

section \<open>The port of the live listener\<close>

lemma Port_value: "fst (ginService_Port gs) = Port (cfg gs)"
  by (simp add: ginService_Port_def Let_def)

lemma Port_cfg: "cfg (snd (ginService_Port gs)) = cfg gs"
  by (simp add: ginService_Port_def Let_def)

lemma Port_calls_cfg: "cfg (((snd \<circ> ginService_Port) ^^ n) gs) = cfg gs"
  by (induction n) (simp_all add: Port_cfg)

lemma Run_cfg:
  assumes "isEnabled gs"
    and "netListen e (formatBindAddr (BindAddr (cfg gs)) (Port (cfg gs))) = Inr lis"
  shows "cfg (fst (ginService_Run e gs)) = (cfg gs)\<lparr>Port := lis_port lis\<rparr>"
  using assms
  by (simp add: ginService_Run_def Run_listen_enabled Let_def myHttpServer_Serve_def
      track_def untrack_def serve_loop_eq close_listener_def emit_def
      split: sum.splits option.splits)

text \<open>
  Claim C4. Take an enabled listener configured with port 0 for which \<open>net.Listen\<close>
  opens a listener \<open>lis\<close>, whose port the operating system chose (so it is not 0).
  Before \<open>Run\<close>, \<open>Port()\<close> returns 0. Once \<open>Run\<close> has opened the listener and stored
  its port, every \<open>Port()\<close> call, after any number of earlier \<open>Port()\<close> calls, returns
  the port of \<open>lis\<close>, which is not 0: right after the store, while the server is
  serving on \<open>lis\<close>, and after \<open>Run\<close> has ended.
\<close>

theorem Port_reports_bound_port:
  assumes "isEnabled gs"
    and "Port (cfg gs) = 0"
    and "netListen e (formatBindAddr (BindAddr (cfg gs)) 0) = Inr lis"
    and "lis_port lis \<noteq> 0"
  shows "snd (Run_listen e gs) = Inr lis \<and>
         (\<forall>n. fst (ginService_Port (((snd \<circ> ginService_Port) ^^ n) (fst (Run_listen e gs))))
               = lis_port lis) \<and>
         (\<forall>n. fst (ginService_Port
                 (((snd \<circ> ginService_Port) ^^ n) (track lis (fst (Run_listen e gs)))))
               = lis_port lis) \<and>
         (\<forall>n. fst (ginService_Port (((snd \<circ> ginService_Port) ^^ n) (fst (ginService_Run e gs))))
               = lis_port lis) \<and>
         fst (ginService_Port (fst (Run_listen e gs))) \<noteq> 0 \<and>
         fst (ginService_Port gs) = 0"
  using assms
  by (simp add: Port_value Port_calls_cfg Run_cfg Run_listen_enabled Let_def track_def)

theorem Port_reports_bound_port_witness:
  "isEnabled sample_service \<and> Port (cfg sample_service) = 0 \<and>
   netListen sample_env (formatBindAddr (BindAddr (cfg sample_service)) 0)
     = Inr sample_listener \<and>
   fst (ginService_Port sample_service) = 0 \<and>
   fst (ginService_Port sample_serving) = 40001 \<and>
   fst (ginService_Port (snd (ginService_Port sample_serving))) = 40001 \<and>
   fst (ginService_Port (fst (ginService_Run sample_env sample_service))) = 40001"
proof -
  have a: "isEnabled sample_service" by (rule sample_enabled)
  have b: "Port (cfg sample_service) = 0"
    by (simp add: sample_service_def ginService_AddHandler_def New_def)
  have c: "netListen sample_env (formatBindAddr (BindAddr (cfg sample_service)) 0)
             = Inr sample_listener"
    by (simp add: sample_env_def bind_any_def)
  have d: "lis_port sample_listener \<noteq> 0" by (simp add: sample_listener_def)
  note t = Port_reports_bound_port [OF a b c d]
  have p0: "fst (ginService_Port sample_service) = 0" using t by blast
  have p1: "fst (ginService_Port sample_serving) = lis_port sample_listener"
    using t [THEN conjunct2, THEN conjunct2, THEN conjunct1, rule_format, of 0]
    by (simp add: sample_serving_def)
  have p2: "fst (ginService_Port (snd (ginService_Port sample_serving)))
              = lis_port sample_listener"
    using t [THEN conjunct2, THEN conjunct2, THEN conjunct1, rule_format, of 1]
    by (simp add: sample_serving_def)
  have p3: "fst (ginService_Port (fst (ginService_Run sample_env sample_service)))
              = lis_port sample_listener"
    using t [THEN conjunct2, THEN conjunct2, THEN conjunct2, THEN conjunct1, rule_format, of 0]
    by simp
  show ?thesis using a b c p0 p1 p2 p3 by (simp add: sample_listener_def)
qed

section \<open>Handlers and the router of a run\<close>

lemma fresh_engine_cong:
  "GinNoDefault (cfg gs') = GinNoDefault (cfg gs) \<Longrightarrow> ginNoLogger gs' = ginNoLogger gs \<Longrightarrow>
   name gs' = name gs \<Longrightarrow> fresh_engine gs' = fresh_engine gs"
  by (simp add: fresh_engine_def)

text \<open>
  Claim C6. Take an enabled listener for which \<open>net.Listen\<close> opens a listener. The
  engine its server serves with, while \<open>Run\<close> is serving and after \<open>Run\<close> has ended,
  is the fresh engine of \<open>Configure\<close> with exactly the callbacks of the handler list at
  the start of \<open>Run\<close> applied, in their order. \<open>AddHandler\<close> during the run appends
  to the handler list and leaves that engine as it is; the next \<open>Run\<close> (of a restart or
  a \<open>Reload\<close>) serves with a fresh engine that has the late callback applied too.
\<close>

theorem Run_installs_queued_handlers:
  assumes "isEnabled gs"
    and "netListen e (formatBindAddr (BindAddr (cfg gs)) (Port (cfg gs))) = Inr lis"
  shows "served_engine (track lis (fst (Run_listen e gs)))
           = Some (foldl (\<lambda>en h. h en) (fresh_engine gs) (handlers gs)) \<and>
         served_engine (ginService_AddHandler hdl (track lis (fst (Run_listen e gs))))
           = Some (foldl (\<lambda>en h. h en) (fresh_engine gs) (handlers gs)) \<and>
         handlers (ginService_AddHandler hdl (track lis (fst (Run_listen e gs))))
           = handlers gs @ [hdl] \<and>
         served_engine (fst (ginService_Run e gs))
           = Some (foldl (\<lambda>en h. h en) (fresh_engine gs) (handlers gs)) \<and>
         served_engine (fst (Run_listen e'
             (ginService_AddHandler hdl (track lis (fst (Run_listen e gs))))))
           = Some (foldl (\<lambda>en h. h en) (fresh_engine gs) (handlers gs @ [hdl]))"
proof -
  let ?S = "track lis (fst (Run_listen e gs))"
  have S: "?S = gs\<lparr>logger := Some ''gin'',
       engines := engines gs @ [foldl (\<lambda>en h. h en) (fresh_engine gs) (handlers gs)],
       router := Some (length (engines gs)),
       svr := Some \<lparr>Handler = length (engines gs), listeners = [lis], inShutdown = False\<rparr>,
       cfg := (cfg gs)\<lparr>Port := lis_port lis\<rparr>,
       trace := trace gs @ [EvPortRead (Port (cfg gs)),
         EvListen (formatBindAddr (BindAddr (cfg gs)) (Port (cfg gs))), EvBind lis,
         EvPortWrite (lis_port lis)]\<rparr>"
    using assms by (simp add: Run_listen_enabled Let_def track_def)
  have 1: "served_engine ?S = Some (foldl (\<lambda>en h. h en) (fresh_engine gs) (handlers gs))"
    by (simp add: S served_engine_def)
  have 2: "served_engine (ginService_AddHandler hdl ?S) = served_engine ?S"
    by (simp add: served_engine_def ginService_AddHandler_def split: option.splits)
  have 3: "handlers (ginService_AddHandler hdl ?S) = handlers gs @ [hdl]"
    by (simp add: S ginService_AddHandler_def)
  have e4: "engines (fst (ginService_Run e gs))
           = engines gs @ [foldl (\<lambda>en h. h en) (fresh_engine gs) (handlers gs)]"
    using assms
    by (simp add: ginService_Run_def Run_listen_enabled Let_def myHttpServer_Serve_def
      track_def untrack_def serve_loop_eq close_listener_def emit_def
      split: sum.splits option.splits)
  have s4: "map_option Handler (svr (fst (ginService_Run e gs))) = Some (length (engines gs))"
    using assms
    by (simp add: ginService_Run_def Run_listen_enabled Let_def myHttpServer_Serve_def
      track_def untrack_def serve_loop_eq close_listener_def emit_def
      split: sum.splits option.splits)
  have 4: "served_engine (fst (ginService_Run e gs))
           = Some (foldl (\<lambda>en h. h en) (fresh_engine gs) (handlers gs))"
    using s4 by (auto simp: served_engine_def e4 split: option.splits)
  have en: "isEnabled (ginService_AddHandler hdl ?S)"
    by (simp add: ginService_AddHandler_def)
  have fe: "fresh_engine (ginService_AddHandler hdl ?S) = fresh_engine gs"
    by (rule fresh_engine_cong) (simp_all add: S ginService_AddHandler_def)
  have 5: "served_engine (fst (Run_listen e' (ginService_AddHandler hdl ?S)))
           = Some (foldl (\<lambda>en h. h en) (fresh_engine gs) (handlers gs @ [hdl]))"
    unfolding Run_listen_enabled [OF en] fe 3
    by (simp add: Let_def served_engine_def split: sum.splits)
  show ?thesis using 1 2 3 4 5 by simp
qed

theorem Run_installs_queued_handlers_witness:
  "isEnabled sample_service \<and>
   served_engine sample_serving
     = Some \<lparr>middleware = [''Logger'', ''PanicLogger'', ''otelgin:demo''],
             routes = [''GET /ping'']\<rparr> \<and>
   served_engine (ginService_AddHandler late_handler sample_serving)
     = Some \<lparr>middleware = [''Logger'', ''PanicLogger'', ''otelgin:demo''],
             routes = [''GET /ping'']\<rparr> \<and>
   served_engine (fst (Run_listen second_env
       (ginService_AddHandler late_handler sample_serving)))
     = Some \<lparr>middleware = [''Logger'', ''PanicLogger'', ''otelgin:demo''],
             routes = [''GET /ping'', ''GET /late'']\<rparr>"
proof -
  have b: "netListen sample_env
      (formatBindAddr (BindAddr (cfg sample_service)) (Port (cfg sample_service)))
    = Inr sample_listener"
    by (simp add: sample_env_def bind_any_def)
  have h: "handlers sample_service = [ping_handler]"
    by (simp add: sample_service_def ginService_AddHandler_def New_def)
  have f: "fresh_engine sample_service
    = \<lparr>middleware = [''Logger'', ''PanicLogger'', ''otelgin:demo''], routes = []\<rparr>"
    by (simp add: fresh_engine_def sample_service_def ginService_AddHandler_def New_def)
  show ?thesis
    using Run_installs_queued_handlers [OF sample_enabled b, of late_handler second_env]
    by (simp add: sample_enabled sample_serving_def h f ping_handler_def late_handler_def)
qed

section \<open>The default-off policy\<close>

lemma close_listener_isEnabled [simp]: "isEnabled (close_listener l gs) = isEnabled gs"
  by (simp add: close_listener_def)

lemma close_all_isEnabled [simp]: "isEnabled (close_all ls gs) = isEnabled gs"
  by (induction ls arbitrary: gs) simp_all

lemma Shutdown_isEnabled [simp]: "isEnabled (Shutdown gs) = isEnabled gs"
  by (simp add: Shutdown_def split: option.splits)

lemma do_work_isEnabled [simp]: "isEnabled (do_work gs w) = isEnabled gs"
  by (cases w) simp_all

lemma foldl_do_work_isEnabled [simp]: "isEnabled (foldl do_work gs ws) = isEnabled gs"
  by (induction ws arbitrary: gs) simp_all

lemma recv_isEnabled [simp]: "isEnabled (fst (recv body gs)) = isEnabled gs"
  by (simp add: recv_def split: prod.splits option.splits)

lemma Reload_disabled:
  assumes "\<not> isEnabled gs"
  shows "\<not> isEnabled (fst (ginService_Reload e config gs))"
proof -
  let ?g = "emit (EvPortWrite (Port config)) (gs\<lparr>cfg := config\<rparr>)"
  obtain gs2 v where r: "recv (ginService_Stop ?g) ?g = (gs2, v)"
    by (cases "recv (ginService_Stop ?g) ?g")
  have "isEnabled (fst (recv (ginService_Stop ?g) ?g)) = isEnabled ?g"
    by (rule recv_isEnabled)
  then have d: "\<not> isEnabled gs2" using assms r by simp
  show ?thesis
  proof (cases v)
    case None
    then show ?thesis using r d by (simp add: ginService_Reload_def Let_def)
  next
    case (Some b)
    then show ?thesis using r d by (simp add: ginService_Reload_def Let_def Run_disabled)
  qed
qed

lemma exec_call_disabled:
  "\<not> is_AddHandler c \<Longrightarrow> \<not> isEnabled gs \<Longrightarrow> \<not> isEnabled (exec_call e gs c)"
  by (cases c)
    (simp_all add: ginService_InitFlags_def ginService_Configure_def Let_def Run_disabled
      ginService_Port_def Reload_disabled)

lemma execs_disabled:
  "\<forall>c \<in> set cs. \<not> is_AddHandler c \<Longrightarrow> \<not> isEnabled gs \<Longrightarrow>
   \<not> isEnabled (foldl (exec_call e) gs cs)"
  by (induction cs arbitrary: gs) (simp_all add: exec_call_disabled)

text \<open>
  Claim C5. A listener made by \<open>New\<close> is not enabled and has no handlers. \<open>AddHandler\<close>
  appends the callback to the handler list and enables the listener. \<open>Run\<close> on a
  listener that is not enabled returns nil and changes nothing: no event happens, so no
  socket is opened. After any sequence of calls on a new listener in which \<open>AddHandler\<close>
  does not occur, the listener is in that case.
\<close>

theorem disabled_until_AddHandler:
  "\<not> isEnabled (New n) \<and> handlers (New n) = [] \<and>
   isEnabled (ginService_AddHandler hdl gs) \<and>
   handlers (ginService_AddHandler hdl gs) = handlers gs @ [hdl] \<and>
   (\<not> isEnabled gs \<longrightarrow> ginService_Run e gs = (gs, Ret None)) \<and>
   ((\<forall>c \<in> set cs. \<not> is_AddHandler c) \<longrightarrow>
      ginService_Run e (foldl (exec_call e') (New n) cs)
        = (foldl (exec_call e') (New n) cs, Ret None))"
proof -
  have "\<not> isEnabled (New n)" by (simp add: New_def)
  then have "(\<forall>c \<in> set cs. \<not> is_AddHandler c) \<longrightarrow>
      \<not> isEnabled (foldl (exec_call e') (New n) cs)"
    using execs_disabled by blast
  then show ?thesis
    by (simp add: New_def ginService_AddHandler_def Run_disabled)
qed

theorem disabled_until_AddHandler_witness:
  "ginService_Run sample_env
     (foldl (exec_call sample_env) (New ''demo'')
        [CallInitFlags, CallRun, CallPort, CallReload second_config, CallStop])
   = (foldl (exec_call sample_env) (New ''demo'')
        [CallInitFlags, CallRun, CallPort, CallReload second_config, CallStop], Ret None) \<and>
   \<not> isEnabled (New ''demo'') \<and>
   isEnabled (ginService_AddHandler ping_handler (New ''demo''))"
  using disabled_until_AddHandler [of "''demo''" ping_handler "New ''demo''" sample_env
      "[CallInitFlags, CallRun, CallPort, CallReload second_config, CallStop]" sample_env]
  by simp

section \<open>Reload\<close>





lemma stop_serving:
  assumes "serving gs lis" and "svr gs = Some s"
  shows "recv (ginService_Stop (emit (EvPortWrite q) (gs\<lparr>cfg := config\<rparr>)))
              (emit (EvPortWrite q) (gs\<lparr>cfg := config\<rparr>))
         = (gs\<lparr>cfg := config, svr := Some (s\<lparr>listeners := [], inShutdown := True\<rparr>),
               trace := trace gs @ [EvPortWrite q, EvClose lis, EvShutdown, EvAck True]\<rparr>,
            Some True)"
  using assms
  by (simp add: serving_def recv_def ginService_Stop_def Shutdown_def close_listener_def
      open_socks_append emit_def)


lemma run_events_cfg: "cfg gs' = cfg gs \<Longrightarrow> run_events e gs' = run_events e gs"
  by (simp add: run_events_def)

lemma Reload_serving:
  assumes "serving gs lis"
  shows "\<exists>stopped.
           ginService_Reload e config gs = ginService_Run e stopped \<and>
           isEnabled stopped \<and> cfg stopped = config \<and>
           trace stopped = trace gs @ [EvPortWrite (Port config), EvClose lis, EvShutdown, EvAck True]"
proof -
  obtain s where s: "svr gs = Some s"
    using assms by (auto simp: serving_def split: option.splits)
  have en: "isEnabled gs" using assms by (simp add: serving_def)
  let ?st = "gs\<lparr>cfg := config, svr := Some (s\<lparr>listeners := [], inShutdown := True\<rparr>),
      trace := trace gs @ [EvPortWrite (Port config), EvClose lis, EvShutdown, EvAck True]\<rparr>"
  have "ginService_Reload e config gs = ginService_Run e ?st"
    by (simp add: ginService_Reload_def Let_def stop_serving [OF assms s])
  moreover have "isEnabled ?st" using en by simp
  moreover have "cfg ?st = config" by simp
  moreover have "trace ?st
      = trace gs @ [EvPortWrite (Port config), EvClose lis, EvShutdown, EvAck True]"
    by simp
  ultimately show ?thesis by blast
qed

lemma sample_serving_ok: "serving sample_serving sample_listener"
  by (simp add: sample_serving_def Run_listen_enabled sample_enabled Let_def track_def serving_def
      sample_env_def bind_any_def open_socks_def sample_service_def
      ginService_AddHandler_def New_def)










section \<open>The mutex and the bound port\<close>

lemma unguarded_conns: "unguarded h (map EvConn cs @ es) = unguarded h es"
  by (induction cs) simp_all

lemma Run_port_accesses_unguarded:
  "unguarded False (run_events e gs) =
     EvPortRead (Port (cfg gs)) #
     (case netListen e (formatBindAddr (BindAddr (cfg gs)) (Port (cfg gs))) of
        Inl err \<Rightarrow> []
      | Inr lis \<Rightarrow> [EvPortWrite (lis_port lis)])"
  by (simp add: run_events_def Let_def unguarded_conns split: sum.splits option.splits)

lemma Port_guarded:
  "trace (snd (ginService_Port gs)) = trace gs @ [EvLock, EvPortRead (Port (cfg gs)), EvUnlock] \<and>
   unguarded False [EvLock, EvPortRead (Port (cfg gs)), EvUnlock] = []"
  by (simp add: ginService_Port_def Let_def)

lemma Reload_trace:
  assumes "serving gs lis"
  shows "trace (fst (ginService_Reload e config gs))
           = trace gs @ [EvPortWrite (Port config), EvClose lis, EvShutdown, EvAck True]
               @ run_events e (gs\<lparr>cfg := config\<rparr>)"
proof -
  obtain stopped where r: "ginService_Reload e config gs = ginService_Run e stopped"
    and en: "isEnabled stopped" and c: "cfg stopped = config"
    and t: "trace stopped
              = trace gs @ [EvPortWrite (Port config), EvClose lis, EvShutdown, EvAck True]"
    using Reload_serving [OF assms] by blast
  have "run_events e stopped = run_events e (gs\<lparr>cfg := config\<rparr>)"
    by (rule run_events_cfg) (simp add: c)
  then show ?thesis by (simp add: r Run_trace [OF en] t)
qed

text \<open>
  Claim C7 at the sample service. \<open>Port()\<close> reads the port between \<open>Lock\<close> and
  \<open>Unlock\<close>. \<open>Run\<close> reads the configured port 0 and writes the bound port 40001 while
  the mutex is not held, and \<open>Reload\<close> of the serving listener writes the new
  configuration and \<open>Run\<close>'s read and write of the port while the mutex is not held:
  no write of the port takes the mutex that \<open>Port()\<close> takes.
\<close>

theorem port_writes_do_not_take_the_mutex:
  "drop (length (trace sample_serving)) (trace (snd (ginService_Port sample_serving)))
     = [EvLock, EvPortRead 40001, EvUnlock] \<and>
   unguarded False [EvLock, EvPortRead 40001, EvUnlock] = [] \<and>
   unguarded False (trace (fst (ginService_Run sample_env sample_service)))
     = [EvPortRead 0, EvPortWrite 40001] \<and>
   unguarded False (drop (length (trace sample_serving))
       (trace (fst (ginService_Reload second_env second_config sample_serving))))
     = [EvPortWrite 8080, EvPortRead 8080, EvPortWrite 8080]"
proof -
  have c: "Port (cfg sample_serving) = 40001"
    by (simp add: sample_serving_def Run_listen_enabled sample_enabled Let_def track_def
        sample_env_def bind_any_def sample_listener_def)
  have 1: "drop (length (trace sample_serving)) (trace (snd (ginService_Port sample_serving)))
     = [EvLock, EvPortRead 40001, EvUnlock]"
    using Port_guarded [of sample_serving] by (simp add: c)
  have t0: "trace sample_service = []"
    by (simp add: sample_service_def ginService_AddHandler_def New_def)
  have c0: "Port (cfg sample_service) = 0"
    by (simp add: sample_service_def ginService_AddHandler_def New_def)
  have 3: "unguarded False (trace (fst (ginService_Run sample_env sample_service)))
     = [EvPortRead 0, EvPortWrite 40001]"
    by (simp add: Run_trace [OF sample_enabled] t0 Run_port_accesses_unguarded c0
        sample_env_def bind_any_def sample_listener_def)
  have 4: "unguarded False (drop (length (trace sample_serving))
       (trace (fst (ginService_Reload second_env second_config sample_serving))))
     = [EvPortWrite 8080, EvPortRead 8080, EvPortWrite 8080]"
    by (simp add: Reload_trace [OF sample_serving_ok] Run_port_accesses_unguarded
        second_env_def bind_second_def second_config_def second_listener_def)
  show ?thesis using 1 3 4 by simp
qed

end
